theory Spec2Isabelle
  imports Main
begin

unbundle bit_operations_syntax

section \<open>Strings, bytes and exceptions\<close>

text \<open>
  A Python \<open>str\<close> is the list of its code points, integers from 0 to 1114111;
  \<open>ustr\<close> reads one from a literal.
  A byte is an integer from 0 to 255 and a 32-bit word an integer below \<open>2^32\<close>; where
  the code's arithmetic wraps around, the reduction is written out.
\<close>

type_synonym str = "int list"
type_synonym byte = int
type_synonym u32 = int

definition ustr :: "string \<Rightarrow> str" where
  "ustr s = map of_char s"

text \<open>The exceptions the code can raise. In Python \<open>UnicodeEncodeError\<close> is a subclass
  of \<open>ValueError\<close>; it is kept apart here because the handlers see it at different
  places.\<close>

datatype error = ValueError | UnicodeEncodeError | HTTPException nat string

text \<open>\<open>s.encode()\<close>: UTF-8, which raises \<open>UnicodeEncodeError\<close> when the string holds a
  surrogate code point (U+D800 to U+DFFF).\<close>

definition surrogate :: "int \<Rightarrow> bool" where
  "surrogate c = (55296 \<le> c \<and> c \<le> 57343)"

definition utf8_char :: "int \<Rightarrow> byte list" where
  "utf8_char n =
     (if n < 128 then [n]
      else if n < 2048 then [192 + n div 64, 128 + n mod 64]
      else if n < 65536 then [224 + n div 4096, 128 + n div 64 mod 64, 128 + n mod 64]
      else [240 + n div 262144, 128 + n div 4096 mod 64, 128 + n div 64 mod 64, 128 + n mod 64])"

definition utf8 :: "str \<Rightarrow> byte list" where
  "utf8 s = concat (map utf8_char s)"

definition encodable :: "str \<Rightarrow> bool" where
  "encodable s = (\<not> list_ex surrogate s)"

definition encode :: "str \<Rightarrow> error + byte list" where
  "encode s = (if encodable s then Inr (utf8 s) else Inl UnicodeEncodeError)"

text \<open>\<open>s.lower()\<close>: on a string of ASCII characters only, the letters \<open>A\<close> to \<open>Z\<close> become
  \<open>a\<close> to \<open>z\<close>. On any other string the result comes from the interpreter's Unicode
  case tables, which are a parameter here.\<close>

definition ascii_lower :: "int \<Rightarrow> int" where
  "ascii_lower c = (if 65 \<le> c \<and> c \<le> 90 then c + 32 else c)"

definition lower :: "(str \<Rightarrow> str) \<Rightarrow> str \<Rightarrow> str" where
  "lower unicode_lower s =
     (if list_all (\<lambda>c. c < 128) s then map ascii_lower s else unicode_lower s)"

text \<open>\<open>s.strip()\<close> removes the leading and trailing characters for which
  \<open>str.isspace\<close> holds.\<close>

definition isspace :: "int \<Rightarrow> bool" where
  "isspace c =
     ((9 \<le> c \<and> c \<le> 13) \<or> (28 \<le> c \<and> c \<le> 32) \<or> c = 133 \<or> c = 160 \<or> c = 5760 \<or>
      (8192 \<le> c \<and> c \<le> 8202) \<or> c = 8232 \<or> c = 8233 \<or> c = 8239 \<or> c = 8287 \<or>
      c = 12288)"

definition strip :: "str \<Rightarrow> str" where
  "strip s = rev (dropWhile isspace (rev (dropWhile isspace s)))"

text \<open>\<open>s.split(sep)\<close> for a one-character separator: every occurrence splits, and the
  empty string gives one empty piece.\<close>

fun split :: "'a \<Rightarrow> 'a list \<Rightarrow> 'a list list" where
  "split sep [] = [[]]"
| "split sep (c # cs) =
     (if c = sep then [] # split sep cs
      else (case split sep cs of
              [] \<Rightarrow> [[c]]
            | p # ps \<Rightarrow> (c # p) # ps))"

text \<open>The delimiter of a stored record, the character \<open>$\<close>.\<close>

definition delim :: int where
  "delim = 36"

definition hexchars :: str where
  "hexchars = ustr ''0123456789abcdef''"

text \<open>\<open>bytes.hex()\<close>: two lowercase hexadecimal digits for each byte.\<close>

definition hexbyte :: "byte \<Rightarrow> str" where
  "hexbyte b = [hexchars ! nat (b div 16 mod 16), hexchars ! nat (b mod 16)]"

definition hexlify :: "byte list \<Rightarrow> str" where
  "hexlify bs = concat (map hexbyte bs)"

section \<open>SHA-256 (\<open>hashlib.sha256\<close>)\<close>

definition add32 :: "u32 \<Rightarrow> u32 \<Rightarrow> u32" where
  "add32 a b = (a + b) mod 4294967296"

definition shr :: "nat \<Rightarrow> u32 \<Rightarrow> u32" where
  "shr n x = x div 2 ^ n"

definition rotr :: "nat \<Rightarrow> u32 \<Rightarrow> u32" where
  "rotr n x = (x div 2 ^ n) OR ((x * 2 ^ (32 - n)) mod 4294967296)"

definition Ch :: "u32 \<Rightarrow> u32 \<Rightarrow> u32 \<Rightarrow> u32" where
  "Ch x y z = (x AND y) XOR ((x XOR 4294967295) AND z)"

definition Maj :: "u32 \<Rightarrow> u32 \<Rightarrow> u32 \<Rightarrow> u32" where
  "Maj x y z = (x AND y) XOR (x AND z) XOR (y AND z)"

definition bsig0 :: "u32 \<Rightarrow> u32" where
  "bsig0 x = rotr 2 x XOR rotr 13 x XOR rotr 22 x"

definition bsig1 :: "u32 \<Rightarrow> u32" where
  "bsig1 x = rotr 6 x XOR rotr 11 x XOR rotr 25 x"

definition ssig0 :: "u32 \<Rightarrow> u32" where
  "ssig0 x = rotr 7 x XOR rotr 18 x XOR shr 3 x"

definition ssig1 :: "u32 \<Rightarrow> u32" where
  "ssig1 x = rotr 17 x XOR rotr 19 x XOR shr 10 x"

definition K256 :: "u32 list" where
  "K256 =
    [1116352408, 1899447441, 3049323471, 3921009573, 961987163, 1508970993,
     2453635748, 2870763221, 3624381080, 310598401, 607225278, 1426881987,
     1925078388, 2162078206, 2614888103, 3248222580, 3835390401, 4022224774,
     264347078, 604807628, 770255983, 1249150122, 1555081692, 1996064986,
     2554220882, 2821834349, 2952996808, 3210313671, 3336571891, 3584528711,
     113926993, 338241895, 666307205, 773529912, 1294757372, 1396182291,
     1695183700, 1986661051, 2177026350, 2456956037, 2730485921, 2820302411,
     3259730800, 3345764771, 3516065817, 3600352804, 4094571909, 275423344,
     430227734, 506948616, 659060556, 883997877, 958139571, 1322822218,
     1537002063, 1747873779, 1955562222, 2024104815, 2227730452, 2361852424,
     2428436474, 2756734187, 3204031479, 3329325298]"

definition H256 :: "u32 list" where
  "H256 =
    [1779033703, 3144134277, 1013904242, 2773480762, 1359893119, 2600822924,
     528734635, 1541459225]"

text \<open>The \<open>k\<close> low bytes of an integer, most significant first.\<close>

definition be_byte :: "int \<Rightarrow> nat \<Rightarrow> byte" where
  "be_byte w i = (w div 256 ^ i) mod 256"

definition be_bytes :: "nat \<Rightarrow> int \<Rightarrow> byte list" where
  "be_bytes k w = map (be_byte w) (rev [0..<k])"

definition sha_pad :: "byte list \<Rightarrow> byte list" where
  "sha_pad m =
     m @ [128] @ replicate ((64 - (length m + 9) mod 64) mod 64) 0
       @ be_bytes 8 (8 * int (length m) mod 18446744073709551616)"

fun be_words :: "byte list \<Rightarrow> u32 list" where
  "be_words (a # b # c # d # r) = (a * 16777216 + b * 65536 + c * 256 + d) # be_words r"
| "be_words _ = []"

definition schedule_next :: "u32 \<Rightarrow> u32 \<Rightarrow> u32 \<Rightarrow> u32 \<Rightarrow> u32" where
  "schedule_next w2 w7 w15 w16 = (ssig1 w2 + w7 + ssig0 w15 + w16) mod 4294967296"

fun schedule :: "nat \<Rightarrow> u32 list \<Rightarrow> u32 list" where
  "schedule 0 w = w"
| "schedule (Suc n) w =
     schedule n (w @ [schedule_next (w ! (length w - 2)) (w ! (length w - 7))
                        (w ! (length w - 15)) (w ! (length w - 16))])"

definition temp1 :: "u32 \<Rightarrow> u32 \<Rightarrow> u32 \<Rightarrow> u32 \<Rightarrow> u32 \<Rightarrow> u32 \<Rightarrow> u32" where
  "temp1 e f g h k w = (h + bsig1 e + Ch e f g + k + w) mod 4294967296"

definition temp2 :: "u32 \<Rightarrow> u32 \<Rightarrow> u32 \<Rightarrow> u32" where
  "temp2 a b c = (bsig0 a + Maj a b c) mod 4294967296"

fun rotate_in :: "u32 \<Rightarrow> u32 \<Rightarrow> u32 list \<Rightarrow> u32 list" where
  "rotate_in t1 t2 [a, b, c, d, e, f, g, h] = [add32 t1 t2, a, b, c, add32 d t1, e, f, g]"
| "rotate_in t1 t2 s = s"

fun round256 :: "u32 \<times> u32 \<Rightarrow> u32 list \<Rightarrow> u32 list" where
  "round256 (k, w) [a, b, c, d, e, f, g, h] =
     rotate_in (temp1 e f g h k w) (temp2 a b c) [a, b, c, d, e, f, g, h]"
| "round256 _ s = s"

definition compress :: "byte list \<Rightarrow> u32 list \<Rightarrow> u32 list" where
  "compress blk hs =
     map2 add32 hs (fold round256 (zip K256 (schedule 48 (be_words blk))) hs)"

function blocks :: "byte list \<Rightarrow> byte list list" where
  "blocks bs = (if length bs < 64 then [] else take 64 bs # blocks (drop 64 bs))"
  by pat_completeness auto
termination
  by (relation "measure length") auto

definition sha256 :: "byte list \<Rightarrow> byte list" where
  "sha256 m = concat (map (be_bytes 4) (fold compress (blocks (sha_pad m)) H256))"

text \<open>\<open>hashlib.sha256(data).hexdigest()\<close>\<close>

definition sha256_hexdigest :: "byte list \<Rightarrow> str" where
  "sha256_hexdigest m = hexlify (sha256 m)"

section \<open>Random tokens (\<open>secrets\<close>)\<close>

text \<open>
  The operating system's random bytes are an input of the model: a source gives the
  byte drawn at each position of one call. \<open>secrets.token_hex(n)\<close> is the hexadecimal
  form of \<open>n\<close> random bytes; \<open>secrets.token_urlsafe(n)\<close> is their URL-safe Base64
  form with the padding removed.
\<close>

type_synonym source = "nat \<Rightarrow> byte"

definition token_bytes :: "nat \<Rightarrow> source \<Rightarrow> byte list" where
  "token_bytes n rnd = map (\<lambda>i. rnd i mod 256) [0..<n]"

definition token_hex :: "nat \<Rightarrow> source \<Rightarrow> str" where
  "token_hex n rnd = hexlify (token_bytes n rnd)"

definition b64chars :: str where
  "b64chars = ustr ''ABCDEFGHIJKLMNOPQRSTUVWXYZabcdefghijklmnopqrstuvwxyz0123456789-_''"

definition b64 :: "int \<Rightarrow> int" where
  "b64 x = b64chars ! nat (x mod 64)"

fun urlsafe_b64 :: "byte list \<Rightarrow> str" where
  "urlsafe_b64 (a # b # c # r) =
     [b64 (a div 4), b64 (a * 16 + b div 16), b64 (b * 4 + c div 64), b64 c] @ urlsafe_b64 r"
| "urlsafe_b64 [a, b] = [b64 (a div 4), b64 (a * 16 + b div 16), b64 (b * 4)]"
| "urlsafe_b64 [a] = [b64 (a div 4), b64 (a * 16)]"
| "urlsafe_b64 [] = []"

definition token_urlsafe :: "nat \<Rightarrow> source \<Rightarrow> str" where
  "token_urlsafe n rnd = urlsafe_b64 (token_bytes n rnd)"

definition zero_source :: source where
  "zero_source i = 0"

definition ones_source :: source where
  "ones_source i = 255"

section \<open>Password hashing (\<open>hash_password\<close>, \<open>verify_password\<close>)\<close>

definition SALT_LEN :: nat where
  "SALT_LEN = 16"

text \<open>\<open>salt or secrets.token_hex(SALT_LEN)\<close>: \<open>None\<close> and the empty string are both
  falsy, so both are replaced by a fresh token.\<close>

definition salt_or_token :: "str option \<Rightarrow> source \<Rightarrow> str" where
  "salt_or_token salt rnd =
     (case salt of
        None \<Rightarrow> token_hex SALT_LEN rnd
      | Some s \<Rightarrow> if s = [] then token_hex SALT_LEN rnd else s)"

text \<open>The record is returned unless \<open>(salt + password).encode()\<close> raises.\<close>

definition hash_password :: "str \<Rightarrow> str option \<Rightarrow> source \<Rightarrow> error + str" where
  "hash_password password salt rnd =
     (let salt' = salt_or_token salt rnd in
      case encode (salt' @ password) of
        Inl e \<Rightarrow> Inl e
      | Inr bytes \<Rightarrow> Inr (salt' @ [delim] @ sha256_hexdigest bytes))"

text \<open>\<open>salt, _hash = stored.split("$")\<close>: unpacking anything but two pieces raises
  \<open>ValueError\<close>, which the \<open>try\<close> catches. The call of \<open>hash_password\<close> is outside the
  \<open>try\<close>: what it raises is raised by \<open>verify_password\<close>.\<close>

fun unpack2 :: "str list \<Rightarrow> error + (str \<times> str)" where
  "unpack2 [a, b] = Inr (a, b)"
| "unpack2 _ = Inl ValueError"

definition verify_password :: "str \<Rightarrow> str \<Rightarrow> source \<Rightarrow> error + bool" where
  "verify_password password stored rnd =
     (case unpack2 (split delim stored) of
        Inl ValueError \<Rightarrow> Inr False
      | Inl e \<Rightarrow> Inl e
      | Inr (salt, hash) \<Rightarrow>
          (case hash_password password (Some salt) rnd of
             Inl e \<Rightarrow> Inl e
           | Inr record \<Rightarrow> Inr (record = stored)))"

text \<open>\<open>verify_password(p, hash_password(p2, salt))\<close>, the call the round-trip properties
  are about; the two calls draw from their own random sources.\<close>

definition verify_derived :: "str \<Rightarrow> str \<Rightarrow> str option \<Rightarrow> source \<Rightarrow> source \<Rightarrow> error + bool" where
  "verify_derived p p2 salt rnd1 rnd2 =
     (case hash_password p2 salt rnd1 of
        Inl e \<Rightarrow> Inl e
      | Inr record \<Rightarrow> verify_password p record rnd2)"

section \<open>The document store\<close>

text \<open>
  Documents of the \<open>user\<close> collection have the fields of \<open>schemas.User\<close> and the
  identifier the store assigns. The database handle \<open>db\<close> is \<open>None\<close> when the store is
  not configured; otherwise it gives each collection's documents in insertion order.
  The store is the external collaborator: a lookup returns the first matching document
  or none, an insert appends the document under the identifier the store assigns.
\<close>

record User =
  oid :: str
  name :: str
  email :: str
  password_hash :: str
  created_at :: nat
  updated_at :: nat

type_synonym collection = "User list"
type_synonym database = "string \<Rightarrow> collection"

text \<open>\<open>users.find_one({"email": e})\<close>: the first document whose email is \<open>e\<close>.\<close>

definition find_one :: "collection \<Rightarrow> str \<Rightarrow> User option" where
  "find_one users e = find (\<lambda>u. email u = e) users"

text \<open>\<open>users.insert_one(doc)\<close>: the store assigns the identifier and appends.\<close>

definition insert_one :: "collection \<Rightarrow> User \<Rightarrow> collection" where
  "insert_one users doc = users @ [doc]"

section \<open>Signup and login\<close>

text \<open>
  A request reaches its handler validated: \<open>email\<close> is a well-formed address, with the
  letter case of its local part as the client typed it; \<open>name\<close> and \<open>password\<close> are any
  strings. A document that \<open>find_one\<close> returns holds at least its email, so it is truthy,
  and it holds a \<open>password_hash\<close>, so the default of \<open>user.get("password_hash", "")\<close> is
  not used. An exception that a handler does not catch ends the request with that
  exception.
\<close>

record SignupRequest =
  name :: str
  email :: str
  password :: str

record LoginRequest =
  email :: str
  password :: str

text \<open>What a request reads from its environment: the random bytes drawn for a salt and
  those drawn for the session token, the two clock readings, the identifier the store
  assigns to an inserted document, and the interpreter's Unicode case tables.\<close>

record env =
  entropy :: source
  session_entropy :: source
  now_created :: nat
  now_updated :: nat
  inserted_id :: str
  unicode_lower :: "str \<Rightarrow> str"

datatype json = JStr str | JObj "(string \<times> json) list"

definition signup :: "database option \<Rightarrow> SignupRequest \<Rightarrow> env \<Rightarrow> error + (database \<times> json)" where
  "signup db req ev =
     (case db of
        None \<Rightarrow> Inl (HTTPException 500 ''Database not configured'')
      | Some d \<Rightarrow>
          let users = d ''user'' in
          (case find_one users (SignupRequest.email req) of
             Some u \<Rightarrow> Inl (HTTPException 400 ''Email already registered'')
           | None \<Rightarrow>
               (case hash_password (SignupRequest.password req) None (entropy ev) of
                  Inl e \<Rightarrow> Inl e
                | Inr record \<Rightarrow>
                    let doc = \<lparr> oid = inserted_id ev,
                                User.name = strip (SignupRequest.name req),
                                User.email = lower (unicode_lower ev) (SignupRequest.email req),
                                password_hash = record,
                                created_at = now_created ev,
                                updated_at = now_updated ev \<rparr>
                    in Inr (d(''user'' := insert_one users doc),
                            JObj [(''user_id'', JStr (oid doc)),
                                  (''name'', JStr (User.name doc)),
                                  (''email'', JStr (User.email doc))]))))"

definition login :: "database option \<Rightarrow> LoginRequest \<Rightarrow> env \<Rightarrow> error + json" where
  "login db req ev =
     (case db of
        None \<Rightarrow> Inl (HTTPException 500 ''Database not configured'')
      | Some d \<Rightarrow>
          let users = d ''user'' in
          (case find_one users (lower (unicode_lower ev) (LoginRequest.email req)) of
             None \<Rightarrow> Inl (HTTPException 401 ''Invalid credentials'')
           | Some user \<Rightarrow>
               (case verify_password (LoginRequest.password req) (password_hash user) (entropy ev) of
                  Inl e \<Rightarrow> Inl e
                | Inr ok \<Rightarrow>
                    if \<not> ok then Inl (HTTPException 401 ''Invalid credentials'')
                    else Inr (JObj [(''token'', JStr (token_urlsafe 24 (session_entropy ev))),
                                    (''user'', JObj [(''id'', JStr (oid user)),
                                                     (''name'', JStr (User.name user)),
                                                     (''email'', JStr (User.email user))])]))))"

section \<open>Example data\<close>

definition ann :: User where
  "ann = \<lparr> oid = ustr ''65f1a2b3c4d5e6f708091a2b'', User.name = ustr ''Ann'',
           User.email = ustr ''ann@x.com'',
           password_hash =
             ustr ''ffffffffffffffffffffffffffffffff$'' @
             ustr ''bbeb34072cfed0d4215c8919fbd0d082e864d9f809d0debd3f2b76dc30a18dd9'',
           created_at = 1700000000, updated_at = 1700000000 \<rparr>"

definition db_empty :: database where
  "db_empty c = []"

definition db_ann :: database where
  "db_ann = db_empty(''user'' := [ann])"

definition req_ANN :: SignupRequest where
  "req_ANN = \<lparr> SignupRequest.name = ustr '' Ann '', SignupRequest.email = ustr ''ANN@x.com'',
               SignupRequest.password = ustr ''secret1'' \<rparr>"

definition env0 :: env where
  "env0 = \<lparr> entropy = zero_source, session_entropy = zero_source,
            now_created = 1700000100, now_updated = 1700000101,
            inserted_id = ustr ''65f1a2b3c4d5e6f708091a2c'', unicode_lower = id \<rparr>"

definition login_bob :: LoginRequest where
  "login_bob = \<lparr> LoginRequest.email = ustr ''Bob@x.com'',
                 LoginRequest.password = ustr ''secret1'' \<rparr>"

definition login_ann_ok :: LoginRequest where
  "login_ann_ok = \<lparr> LoginRequest.email = ustr ''Ann@x.com'',
                    LoginRequest.password = ustr ''secret1'' \<rparr>"

definition login_ann :: LoginRequest where
  "login_ann = \<lparr> LoginRequest.email = ustr ''Ann@x.com'',
                 LoginRequest.password = ustr ''wrong'' \<rparr>"

section \<open>Splitting and hexadecimal text\<close>

lemma split_nonempty: "split d s \<noteq> []"
  by (induction s) (auto split: list.splits)

lemma length_split: "length (split d s) = Suc (count_list s d)"
  by (induction s) (auto split: list.splits simp: split_nonempty)

lemma split_no_sep: "d \<notin> set s \<Longrightarrow> split d s = [s]"
  by (induction s) auto

lemma split_at_sep: "d \<notin> set a \<Longrightarrow> split d (a @ d # b) = a # split d b"
  by (induction a) auto

lemma count_list_append: "count_list (xs @ ys) c = count_list xs c + count_list ys c"
  by (induction xs) auto

lemma count_list_pos: "c \<in> set xs \<Longrightarrow> 0 < count_list xs c"
  by (induction xs) auto

lemma encodable_Nil: "encodable []"
  by (simp add: encodable_def)

lemma encodable_Cons: "encodable (c # s) \<longleftrightarrow> \<not> surrogate c \<and> encodable s"
  by (simp add: encodable_def)

lemma encodable_append: "encodable (a @ b) \<longleftrightarrow> encodable a \<and> encodable b"
  by (induction a) (simp_all add: encodable_Nil encodable_Cons)

lemma hexchars_plain:
  "n < 16 \<Longrightarrow> hexchars ! n \<noteq> delim \<and> \<not> surrogate (hexchars ! n)"
proof -
  assume "n < 16"
  moreover have "list_all (\<lambda>i. hexchars ! i \<noteq> delim \<and> \<not> surrogate (hexchars ! i)) [0..<16]"
    by code_simp
  ultimately show ?thesis by (simp add: list_all_iff)
qed

lemma hexbyte_plain: "delim \<notin> set (hexbyte b) \<and> encodable (hexbyte b)"
proof -
  have "nat (b div 16 mod 16) < 16" by simp
  then have hi: "hexchars ! nat (b div 16 mod 16) \<noteq> delim \<and>
      \<not> surrogate (hexchars ! nat (b div 16 mod 16))"
    by (rule hexchars_plain)
  have "nat (b mod 16) < 16" by simp
  then have lo: "hexchars ! nat (b mod 16) \<noteq> delim \<and> \<not> surrogate (hexchars ! nat (b mod 16))"
    by (rule hexchars_plain)
  from hi lo show ?thesis by (auto simp: hexbyte_def encodable_Cons encodable_Nil)
qed

lemma hexlify_Nil: "hexlify [] = []"
  by (simp add: hexlify_def)

lemma hexlify_Cons: "hexlify (b # bs) = hexbyte b @ hexlify bs"
  by (simp add: hexlify_def)

lemma hexlify_no_delim: "delim \<notin> set (hexlify bs)"
  by (induction bs) (simp_all add: hexlify_Nil hexlify_Cons hexbyte_plain)

lemma hexlify_encodable: "encodable (hexlify bs)"
  by (induction bs) (simp_all add: hexlify_Nil hexlify_Cons hexbyte_plain encodable_Nil
      encodable_append)

lemma length_hexlify: "length (hexlify bs) = 2 * length bs"
  by (induction bs) (simp_all add: hexlify_Nil hexlify_Cons hexbyte_def)

text \<open>Different bytes have different hexadecimal forms.\<close>

lemma hexchars_distinct: "distinct hexchars"
  by code_simp

lemma hexchars_length: "length hexchars = 16"
  by code_simp

lemma hexchars_inj: "i < 16 \<Longrightarrow> j < 16 \<Longrightarrow> hexchars ! i = hexchars ! j \<Longrightarrow> i = j"
  using hexchars_distinct by (simp add: nth_eq_iff_index_eq hexchars_length)

lemma hexbyte_inj:
  assumes "0 \<le> a" "a < 256" "0 \<le> b" "b < 256" "hexbyte a = hexbyte b"
  shows "a = b"
proof -
  from assms(5) have hi: "hexchars ! nat (a div 16 mod 16) = hexchars ! nat (b div 16 mod 16)"
    by (simp add: hexbyte_def)
  from assms(5) have lo: "hexchars ! nat (a mod 16) = hexchars ! nat (b mod 16)"
    by (simp add: hexbyte_def)
  have "nat (a div 16 mod 16) = nat (b div 16 mod 16)"
    by (rule hexchars_inj [OF _ _ hi]) simp_all
  then have h: "a div 16 mod 16 = b div 16 mod 16" by (simp add: eq_nat_nat_iff)
  have "nat (a mod 16) = nat (b mod 16)"
    by (rule hexchars_inj [OF _ _ lo]) simp_all
  then have l: "a mod 16 = b mod 16" by (simp add: eq_nat_nat_iff)
  from assms(1,2) have ea: "a div 16 mod 16 = a div 16" by simp
  from assms(3,4) have eb: "b div 16 mod 16 = b div 16" by simp
  from h ea eb have d: "a div 16 = b div 16" by linarith
  have "16 * (a div 16) + a mod 16 = a" by (rule mult_div_mod_eq)
  moreover have "16 * (b div 16) + b mod 16 = b" by (rule mult_div_mod_eq)
  ultimately show ?thesis using d l by linarith
qed

lemma hexlify_inj:
  "length as = length bs \<Longrightarrow> list_all (\<lambda>x. 0 \<le> x \<and> x < 256) as \<Longrightarrow>
   list_all (\<lambda>x. 0 \<le> x \<and> x < 256) bs \<Longrightarrow> hexlify as = hexlify bs \<Longrightarrow> as = bs"
proof (induction as bs rule: list_induct2)
  case Nil
  show ?case by simp
next
  case (Cons a as b bs)
  from Cons.prems(3) have "hexbyte a = hexbyte b" and "hexlify as = hexlify bs"
    by (simp_all add: hexlify_Cons hexbyte_def)
  with Cons show ?case by (auto dest: hexbyte_inj)
qed

lemma token_bytes_range: "list_all (\<lambda>x. 0 \<le> x \<and> x < 256) (token_bytes n rnd)"
  by (simp add: token_bytes_def list_all_iff)

lemma token_hex_inj:
  "(token_hex n rnd = token_hex n rnd') = (token_bytes n rnd = token_bytes n rnd')"
proof
  assume "token_hex n rnd = token_hex n rnd'"
  moreover have "length (token_bytes n rnd) = length (token_bytes n rnd')"
    by (simp add: token_bytes_def)
  ultimately show "token_bytes n rnd = token_bytes n rnd'"
    using token_bytes_range [of n rnd] token_bytes_range [of n rnd']
    by (auto simp: token_hex_def intro: hexlify_inj)
next
  assume "token_bytes n rnd = token_bytes n rnd'"
  then show "token_hex n rnd = token_hex n rnd'" by (simp add: token_hex_def)
qed

lemma length_token_hex: "length (token_hex n rnd) = 2 * n"
  by (simp add: token_hex_def token_bytes_def length_hexlify)

lemma token_hex_no_delim: "delim \<notin> set (token_hex n rnd)"
  by (simp add: token_hex_def hexlify_no_delim)

lemma token_hex_encodable: "encodable (token_hex n rnd)"
  by (simp add: token_hex_def hexlify_encodable)

lemma digest_no_delim: "delim \<notin> set (sha256_hexdigest m)"
  by (simp add: sha256_hexdigest_def hexlify_no_delim)

section \<open>The digest\<close>

lemma length_rotate_in: "length s = 8 \<Longrightarrow> length (rotate_in t1 t2 s) = 8"
  by (cases "(t1, t2, s)" rule: rotate_in.cases) auto

lemma length_round256: "length s = 8 \<Longrightarrow> length (round256 kw s) = 8"
  by (cases "(kw, s)" rule: round256.cases) (auto simp del: rotate_in.simps simp: length_rotate_in)

lemma length_fold_round256: "length s = 8 \<Longrightarrow> length (fold round256 kws s) = 8"
  by (induction kws arbitrary: s) (simp_all add: length_round256)

lemma length_compress: "length hs = 8 \<Longrightarrow> length (compress blk hs) = 8"
  by (simp add: compress_def length_fold_round256)

lemma length_fold_compress: "length hs = 8 \<Longrightarrow> length (fold compress bs hs) = 8"
  by (induction bs arbitrary: hs) (simp_all add: length_compress)

lemma length_concat_be_bytes: "length (concat (map (be_bytes k) ws)) = k * length ws"
  by (induction ws) (simp_all add: be_bytes_def)

lemma length_sha256: "length (sha256 m) = 32"
proof -
  have "length H256 = 8" by (simp add: H256_def)
  then have "length (fold compress (blocks (sha_pad m)) H256) = 8"
    by (rule length_fold_compress)
  then show ?thesis by (simp add: sha256_def length_concat_be_bytes)
qed

lemma length_sha256_hexdigest: "length (sha256_hexdigest m) = 64"
  by (simp add: sha256_hexdigest_def length_hexlify length_sha256)

text \<open>The digest of \<open>abc\<close> is the one the standard and \<open>hashlib\<close> give.\<close>

lemma sha256_abc:
  "sha256_hexdigest (utf8 (ustr ''abc'')) =
     ustr ''ba7816bf8f01cfea414140de5dae2223b00361a396177a9cb410ff61f20015ad''"
  by code_simp

text \<open>The digests are finitely many and the plaintexts are not: under any salt, two
  different plaintexts have the same digest. Rejecting a wrong password therefore rests
  on its digest being different, which no proof can give for all plaintexts.\<close>

lemma digest_collision:
  "\<exists>n m. n \<noteq> m \<and>
     sha256_hexdigest (utf8 (s @ replicate n c)) = sha256_hexdigest (utf8 (s @ replicate m c))"
proof -
  let ?f = "\<lambda>n. sha256_hexdigest (utf8 (s @ replicate n c))"
  have "range ?f \<subseteq> {xs. set xs \<subseteq> set hexchars \<and> length xs = 64}"
  proof -
    have "set (hexlify bs) \<subseteq> set hexchars" for bs
    proof (induction bs)
      case Nil
      show ?case by (simp add: hexlify_Nil)
    next
      case (Cons b bs)
      have "nat (b div 16 mod 16) < length hexchars" and "nat (b mod 16) < length hexchars"
        by (simp_all add: hexchars_length)
      then have "set (hexbyte b) \<subseteq> set hexchars"
        by (simp add: hexbyte_def)
      with Cons show ?case by (simp add: hexlify_Cons)
    qed
    then show ?thesis
      by (auto simp: sha256_hexdigest_def length_hexlify length_sha256)
  qed
  moreover have "finite {xs. set xs \<subseteq> set hexchars \<and> length xs = 64}"
    by (rule finite_lists_length_eq) simp
  ultimately have "finite (range ?f)" by (rule finite_subset)
  then have "\<not> inj ?f" using finite_imageD [of ?f UNIV] infinite_UNIV_nat by blast
  then show ?thesis unfolding inj_on_def by blast
qed

section \<open>Hashing and verification\<close>

lemma unpack2_bad: "length xs \<noteq> 2 \<Longrightarrow> unpack2 xs = Inl ValueError"
  by (cases xs rule: unpack2.cases) auto

lemma verify_password_bad_count:
  "count_list stored delim \<noteq> 1 \<Longrightarrow> verify_password pw stored rnd = Inr False"
  by (simp add: verify_password_def unpack2_bad length_split)

lemma verify_password_split2:
  "split delim stored = [a, b] \<Longrightarrow>
   verify_password pw stored rnd =
     (case hash_password pw (Some a) rnd of
        Inl e \<Rightarrow> Inl e
      | Inr record \<Rightarrow> Inr (record = stored))"
  by (simp add: verify_password_def)

lemma salt_or_token_nonempty: "salt_or_token salt rnd \<noteq> []"
proof -
  have "length (token_hex SALT_LEN rnd) = 32"
    by (simp add: length_token_hex SALT_LEN_def)
  then have "token_hex SALT_LEN rnd \<noteq> []" by auto
  then show ?thesis by (simp add: salt_or_token_def split: option.splits)
qed

lemma salt_or_token_idem:
  "salt_or_token (Some (salt_or_token salt rnd1)) rnd2 = salt_or_token salt rnd1"
  using salt_or_token_nonempty [of salt rnd1] by (simp add: salt_or_token_def [of "Some _"])

lemma salt_or_token_Some: "s \<noteq> [] \<Longrightarrow> salt_or_token (Some s) rnd = s"
  by (simp add: salt_or_token_def)

lemma salt_or_token_empty: "salt_or_token (Some []) rnd = token_hex SALT_LEN rnd"
  by (simp add: salt_or_token_def)

lemma salt_or_token_None: "salt_or_token None rnd = token_hex SALT_LEN rnd"
  by (simp add: salt_or_token_def)

lemma salt_or_token_delim:
  "delim \<in> set (salt_or_token (Some s) rnd) \<longleftrightarrow> delim \<in> set s"
  by (simp add: salt_or_token_def token_hex_no_delim)

lemma salt_or_token_encodable:
  "encodable (salt_or_token (Some s) rnd @ p) \<longleftrightarrow> encodable (s @ p)"
  by (simp add: salt_or_token_def encodable_append token_hex_encodable encodable_Nil)

lemma hash_password_eq:
  "hash_password pw salt rnd =
     (if encodable (salt_or_token salt rnd @ pw)
      then Inr (salt_or_token salt rnd @ delim #
                sha256_hexdigest (utf8 (salt_or_token salt rnd @ pw)))
      else Inl UnicodeEncodeError)"
  by (simp add: hash_password_def encode_def Let_def)

text \<open>What verifying \<open>p\<close> against the record derived from \<open>q\<close> gives, case by case.\<close>

lemma verify_derived_eq:
  "verify_derived p q salt rnd1 rnd2 =
     (if \<not> encodable (salt_or_token salt rnd1 @ q) then Inl UnicodeEncodeError
      else if delim \<in> set (salt_or_token salt rnd1) then Inr False
      else if \<not> encodable (salt_or_token salt rnd1 @ p) then Inl UnicodeEncodeError
      else Inr (sha256_hexdigest (utf8 (salt_or_token salt rnd1 @ p)) =
                sha256_hexdigest (utf8 (salt_or_token salt rnd1 @ q))))"
proof -
  let ?s = "salt_or_token salt rnd1"
  let ?r = "?s @ delim # sha256_hexdigest (utf8 (?s @ q))"
  show ?thesis
  proof (cases "encodable (?s @ q)")
    case False
    then show ?thesis by (simp add: verify_derived_def hash_password_eq)
  next
    case enc: True
    then have d: "verify_derived p q salt rnd1 rnd2 = verify_password p ?r rnd2"
      by (simp add: verify_derived_def hash_password_eq)
    show ?thesis
    proof (cases "delim \<in> set ?s")
      case True
      then have "count_list ?r delim \<noteq> 1"
        using count_list_pos [OF True] by (simp add: count_list_append)
      then have "verify_password p ?r rnd2 = Inr False"
        by (rule verify_password_bad_count)
      with d enc True show ?thesis by simp
    next
      case False
      then have "split delim ?r = [?s, sha256_hexdigest (utf8 (?s @ q))]"
        by (simp add: split_at_sep split_no_sep digest_no_delim)
      then have "verify_password p ?r rnd2 =
          (case hash_password p (Some ?s) rnd2 of
             Inl e \<Rightarrow> Inl e
           | Inr record \<Rightarrow> Inr (record = ?r))"
        by (rule verify_password_split2)
      with d enc False show ?thesis
        by (simp add: hash_password_eq salt_or_token_idem)
    qed
  qed
qed

lemma upt_16: "[0..<16] = 0 # [1..<16]"
  by (simp add: upt_conv_Cons)

lemma hd_token_hex: "hd (token_hex SALT_LEN rnd) = hexchars ! nat (rnd 0 mod 256 div 16 mod 16)"
  by (simp add: token_hex_def token_bytes_def SALT_LEN_def upt_16 hexlify_Cons hexbyte_def)

lemma hd_token_zero: "hd (token_hex SALT_LEN zero_source) = 48"
proof -
  have "hexchars ! 0 = 48" by code_simp
  then show ?thesis by (simp add: hd_token_hex zero_source_def)
qed

lemma hd_token_ones: "hd (token_hex SALT_LEN ones_source) = 102"
proof -
  have "hexchars ! 15 = 102" by code_simp
  then show ?thesis by (simp add: hd_token_hex ones_source_def)
qed

lemma token_hex_nonempty: "token_hex SALT_LEN rnd \<noteq> []"
  using salt_or_token_nonempty [of None rnd] by (simp add: salt_or_token_None)

lemma hd_token_record: "hd (token_hex SALT_LEN rnd @ x) = hd (token_hex SALT_LEN rnd)"
  using token_hex_nonempty [of rnd] by (simp add: hd_append2)

lemma hash_password_empty_salt:
  "encodable p \<Longrightarrow>
   hash_password p (Some []) rnd =
     Inr (token_hex SALT_LEN rnd @ delim # sha256_hexdigest (utf8 (token_hex SALT_LEN rnd @ p)))"
  by (simp add: hash_password_eq salt_or_token_empty encodable_append token_hex_encodable)

section \<open>Example evaluations\<close>

lemma lower_ANN: "lower id (ustr ''ANN@x.com'') = ustr ''ann@x.com''"
  by code_simp

lemma lower_Bob: "lower id (ustr ''Bob@x.com'') = ustr ''bob@x.com''"
  by code_simp

lemma lower_Ann: "lower id (ustr ''Ann@x.com'') = ustr ''ann@x.com''"
  by code_simp

lemma strip_Ann: "strip (ustr '' Ann '') = ustr ''Ann''"
  by code_simp

lemma emails_differ:
  "ustr ''ann@x.com'' \<noteq> ustr ''ANN@x.com'' \<and> ustr ''ann@x.com'' \<noteq> ustr ''bob@x.com''"
  by code_simp

lemma encodable_secret1: "encodable (ustr ''secret1'')"
  by code_simp

lemma encodable_wrong: "encodable (ustr ''wrong'')"
  by code_simp

lemma not_encodable_surrogate: "\<not> encodable [55296]"
  by code_simp

lemma salt_5f3a:
  "ustr ''5f3a'' \<noteq> [] \<and> delim \<notin> set (ustr ''5f3a'') \<and> encodable (ustr ''5f3a'')"
  by code_simp

lemma salt_a_b:
  "ustr ''a$b'' \<noteq> [] \<and> delim \<in> set (ustr ''a$b'') \<and> encodable (ustr ''a$b'')"
  by code_simp

text \<open>The stored record of the example account is the one \<open>hash_password\<close> derives for
  \<open>secret1\<close> with the salt drawn from \<open>ones_source\<close>; the right password verifies against
  it and a wrong one does not.\<close>

lemma digest_ann_secret1:
  "sha256_hexdigest (utf8 (token_hex SALT_LEN ones_source @ ustr ''secret1'')) =
     ustr ''bbeb34072cfed0d4215c8919fbd0d082e864d9f809d0debd3f2b76dc30a18dd9''"
  by code_simp

lemma digest_ann_wrong:
  "sha256_hexdigest (utf8 (token_hex SALT_LEN ones_source @ ustr ''wrong'')) \<noteq>
     ustr ''bbeb34072cfed0d4215c8919fbd0d082e864d9f809d0debd3f2b76dc30a18dd9''"
  by code_simp

lemma token_ones:
  "token_hex SALT_LEN ones_source @ [delim] = ustr ''ffffffffffffffffffffffffffffffff$''"
  by code_simp

lemma ann_record:
  "token_hex SALT_LEN ones_source @ delim #
     ustr ''bbeb34072cfed0d4215c8919fbd0d082e864d9f809d0debd3f2b76dc30a18dd9'' =
   password_hash ann"
  by (simp add: ann_def token_ones [symmetric])

lemma ann_password_hash:
  "hash_password (ustr ''secret1'') None ones_source = Inr (password_hash ann)"
  using ann_record
  by (simp add: hash_password_eq salt_or_token_None encodable_append token_hex_encodable
      encodable_secret1 digest_ann_secret1)

lemma verify_ann_secret1:
  "verify_password (ustr ''secret1'') (password_hash ann) zero_source = Inr True"
proof -
  have "verify_derived (ustr ''secret1'') (ustr ''secret1'') None ones_source zero_source =
      verify_password (ustr ''secret1'') (password_hash ann) zero_source"
    by (simp add: verify_derived_def ann_password_hash)
  then show ?thesis
    by (simp add: verify_derived_eq salt_or_token_None encodable_append token_hex_encodable
        encodable_secret1 token_hex_no_delim)
qed

lemma verify_ann_wrong:
  "verify_password (ustr ''wrong'') (password_hash ann) zero_source = Inr False"
proof -
  have "verify_derived (ustr ''wrong'') (ustr ''secret1'') None ones_source zero_source =
      verify_password (ustr ''wrong'') (password_hash ann) zero_source"
    by (simp add: verify_derived_def ann_password_hash)
  then show ?thesis
    using digest_ann_wrong
    by (simp add: verify_derived_eq salt_or_token_None encodable_append token_hex_encodable
        encodable_secret1 encodable_wrong token_hex_no_delim digest_ann_secret1)
qed

lemma find_ann: "find_one (db_ann ''user'') (ustr ''ann@x.com'') = Some ann"
  by (simp add: db_ann_def find_one_def ann_def)

lemma find_ANN: "find_one (db_ann ''user'') (ustr ''ANN@x.com'') = None"
  using emails_differ by (simp add: db_ann_def find_one_def ann_def)

lemma find_bob: "find_one (db_ann ''user'') (ustr ''bob@x.com'') = None"
  using emails_differ by (simp add: db_ann_def find_one_def ann_def)

text \<open>The record a signup with the password \<open>secret1\<close> stores when the salt is drawn
  from \<open>zero_source\<close>.\<close>

lemma hash_secret1_zero:
  "hash_password (ustr ''secret1'') None zero_source =
     Inr (ustr ''00000000000000000000000000000000$'' @
          ustr ''8120c8f8925b976b5c6f23b5b5c6ba4f1595e3236c76e6c2efb7f78225ecf857'')"
proof -
  have "sha256_hexdigest (utf8 (token_hex SALT_LEN zero_source @ ustr ''secret1'')) =
      ustr ''8120c8f8925b976b5c6f23b5b5c6ba4f1595e3236c76e6c2efb7f78225ecf857''"
    by code_simp
  moreover have "token_hex SALT_LEN zero_source @ [delim] =
      ustr ''00000000000000000000000000000000$''"
    by code_simp
  ultimately show ?thesis
    by (simp add: hash_password_eq salt_or_token_None encodable_append token_hex_encodable
        encodable_secret1)
qed

lemma login_ann_ok_succeeds:
  "login (Some db_ann) login_ann_ok env0 =
     Inr (JObj [(''token'', JStr (ustr ''AAAAAAAAAAAAAAAAAAAAAAAAAAAAAAAA'')),
                (''user'', JObj [(''id'', JStr (ustr ''65f1a2b3c4d5e6f708091a2b'')),
                                 (''name'', JStr (ustr ''Ann'')),
                                 (''email'', JStr (ustr ''ann@x.com''))])])"
proof -
  have t: "token_urlsafe 24 zero_source = ustr ''AAAAAAAAAAAAAAAAAAAAAAAAAAAAAAAA''"
    by code_simp
  have n: "oid ann = ustr ''65f1a2b3c4d5e6f708091a2b'' \<and> User.name ann = ustr ''Ann'' \<and>
           User.email ann = ustr ''ann@x.com''"
    by (simp add: ann_def)
  show ?thesis
    using t n verify_ann_secret1 find_ann
    by (simp add: login_def login_ann_ok_def env0_def Let_def lower_Ann)
qed

section \<open>Claims\<close>

text \<open>
  C1. The claim: a signup whose email differs only in letter case from a stored account's
  email is rejected with \<open>DuplicateEmail\<close> and leaves the store unchanged. The code looks
  the email up as the request spells it and lowercases it only for the insert: with
  \<open>ann@x.com\<close> stored, a signup for \<open>ANN@x.com\<close> finds nothing, succeeds and appends a
  second account whose email is \<open>ann@x.com\<close>.
\<close>

theorem signup_differing_case_inserts_duplicate:
  "find_one (db_ann ''user'') (lower (unicode_lower env0) (SignupRequest.email req_ANN)) = Some ann \<and>
   find_one (db_ann ''user'') (SignupRequest.email req_ANN) = None \<and>
   signup (Some db_ann) req_ANN env0 =
     Inr (db_ann(''user'' := [ann,
            \<lparr> oid = ustr ''65f1a2b3c4d5e6f708091a2c'', User.name = ustr ''Ann'',
              User.email = ustr ''ann@x.com'',
              password_hash =
                ustr ''00000000000000000000000000000000$'' @
                ustr ''8120c8f8925b976b5c6f23b5b5c6ba4f1595e3236c76e6c2efb7f78225ecf857'',
              created_at = 1700000100, updated_at = 1700000101 \<rparr>]),
          JObj [(''user_id'', JStr (ustr ''65f1a2b3c4d5e6f708091a2c'')),
                (''name'', JStr (ustr ''Ann'')),
                (''email'', JStr (ustr ''ann@x.com''))])"
proof -
  have u: "db_ann ''user'' = [ann]" by (simp add: db_ann_def)
  show ?thesis
    using find_ann find_ANN
    by (simp add: signup_def req_ANN_def env0_def insert_one_def Let_def lower_ANN strip_Ann
        hash_secret1_zero u)
qed

text \<open>
  C2. For every plaintext and every stored record that does not hold exactly one
  delimiter (none, several, or the empty string), \<open>verify_password\<close> returns \<open>False\<close>
  and raises nothing.
\<close>

theorem verify_password_malformed_false:
  "count_list stored delim \<noteq> 1 \<Longrightarrow> verify_password pw stored rnd = Inr False"
  by (rule verify_password_bad_count)

theorem verify_password_malformed_false_witness:
  "count_list [] delim \<noteq> 1 \<and> verify_password (ustr ''secret1'') [] zero_source = Inr False \<and>
   count_list (ustr ''abcdef'') delim \<noteq> 1 \<and>
   verify_password (ustr ''secret1'') (ustr ''abcdef'') zero_source = Inr False \<and>
   count_list (ustr ''ab$cd$ef'') delim \<noteq> 1 \<and>
   verify_password (ustr ''secret1'') (ustr ''ab$cd$ef'') zero_source = Inr False \<and>
   verify_password [55296] (ustr ''ab$cd$ef'') zero_source = Inr False"
proof -
  have h1: "count_list [] delim \<noteq> 1" by simp
  have h2: "count_list (ustr ''abcdef'') delim \<noteq> 1" by code_simp
  have h3: "count_list (ustr ''ab$cd$ef'') delim \<noteq> 1" by code_simp
  show ?thesis
    using h1 h2 h3 verify_password_malformed_false [OF h1, of "ustr ''secret1''" zero_source]
      verify_password_malformed_false [OF h2, of "ustr ''secret1''" zero_source]
      verify_password_malformed_false [OF h3, of "ustr ''secret1''" zero_source]
      verify_password_malformed_false [OF h3, of "[55296]" zero_source]
    by blast
qed

text \<open>
  C3. The claim: \<open>verify(p, derive(p, s))\<close> is true for all \<open>p\<close> and \<open>s\<close>. It fails for a
  salt that holds the delimiter, where the record splits into three pieces and the
  result is \<open>False\<close>, and for a plaintext that holds a surrogate code point, where
  encoding raises \<open>UnicodeEncodeError\<close>. Amended: for every plaintext and every salt
  without the delimiter (the empty salt included, which is replaced by a fresh token),
  verifying the plaintext against its own record gives \<open>True\<close> when salt and plaintext
  hold no surrogate code point, and raises \<open>UnicodeEncodeError\<close> when one of them does.
\<close>

theorem verify_own_record_counterexample:
  "verify_derived (ustr ''secret1'') (ustr ''secret1'') (Some (ustr ''a$b'')) zero_source zero_source
     = Inr False \<and>
   verify_derived [55296] [55296] (Some (ustr ''5f3a'')) zero_source zero_source
     = Inl UnicodeEncodeError"
  using salt_a_b salt_5f3a
  by (simp add: verify_derived_eq salt_or_token_Some encodable_append encodable_secret1
      not_encodable_surrogate)

theorem verify_own_record:
  "delim \<notin> set s \<Longrightarrow>
   verify_derived p p (Some s) rnd1 rnd2 =
     (if encodable (s @ p) then Inr True else Inl UnicodeEncodeError)"
  by (simp add: verify_derived_eq salt_or_token_delim salt_or_token_encodable)

theorem verify_own_record_witness:
  "delim \<notin> set (ustr ''5f3a'') \<and>
   verify_derived (ustr ''secret1'') (ustr ''secret1'') (Some (ustr ''5f3a'')) zero_source ones_source
     = Inr True \<and>
   verify_derived [55296] [55296] (Some (ustr ''5f3a'')) zero_source ones_source
     = Inl UnicodeEncodeError"
proof -
  have h: "delim \<notin> set (ustr ''5f3a'')" using salt_5f3a by simp
  have e: "encodable (ustr ''5f3a'' @ ustr ''secret1'')"
    using salt_5f3a by (simp add: encodable_append encodable_secret1)
  have n: "\<not> encodable (ustr ''5f3a'' @ [55296])"
    by (simp add: encodable_append not_encodable_surrogate)
  show ?thesis
    using h e n verify_own_record [OF h, of "ustr ''secret1''" zero_source ones_source]
      verify_own_record [OF h, of "[55296]" zero_source ones_source]
    by simp
qed




text \<open>
  C5. The claim: two calls of \<open>derive(p, s)\<close> with the same explicitly supplied salt
  return the same record. It fails for the empty salt, which is replaced by a fresh
  random token on each call. Amended: for every plaintext and every non-empty salt,
  the result does not depend on the random source.
\<close>

theorem hash_password_empty_salt_counterexample:
  "hash_password (ustr ''secret1'') (Some []) zero_source \<noteq>
   hash_password (ustr ''secret1'') (Some []) ones_source"
proof
  assume "hash_password (ustr ''secret1'') (Some []) zero_source =
          hash_password (ustr ''secret1'') (Some []) ones_source"
  then have "token_hex SALT_LEN zero_source @ delim #
        sha256_hexdigest (utf8 (token_hex SALT_LEN zero_source @ ustr ''secret1'')) =
      token_hex SALT_LEN ones_source @ delim #
        sha256_hexdigest (utf8 (token_hex SALT_LEN ones_source @ ustr ''secret1''))"
    by (simp add: hash_password_empty_salt encodable_secret1)
  then have "hd (token_hex SALT_LEN zero_source @ delim #
        sha256_hexdigest (utf8 (token_hex SALT_LEN zero_source @ ustr ''secret1''))) =
      hd (token_hex SALT_LEN ones_source @ delim #
        sha256_hexdigest (utf8 (token_hex SALT_LEN ones_source @ ustr ''secret1'')))"
    by (rule arg_cong)
  then have "hd (token_hex SALT_LEN zero_source) = hd (token_hex SALT_LEN ones_source)"
    by (simp only: hd_token_record)
  then show False by (simp add: hd_token_zero hd_token_ones)
qed

theorem hash_password_deterministic:
  "s \<noteq> [] \<Longrightarrow> hash_password p (Some s) rnd1 = hash_password p (Some s) rnd2"
  by (simp add: hash_password_eq salt_or_token_Some)

theorem hash_password_deterministic_witness:
  "ustr ''5f3a'' \<noteq> [] \<and>
   hash_password (ustr ''secret1'') (Some (ustr ''5f3a'')) zero_source =
   hash_password (ustr ''secret1'') (Some (ustr ''5f3a'')) ones_source"
proof -
  have h: "ustr ''5f3a'' \<noteq> []" using salt_5f3a by simp
  show ?thesis
    using h hash_password_deterministic [OF h, of "ustr ''secret1''" zero_source ones_source]
    by blast
qed

text \<open>
  C6. A login for an email that is not in the store and a login for a stored email whose
  password does not verify fail with the same error: status 401, \<open>Invalid credentials\<close>.
\<close>

theorem login_invalid_credentials_same_error:
  "find_one (d ''user'') (lower (unicode_lower ev) (LoginRequest.email req)) = None \<or>
   (\<exists>u. find_one (d ''user'') (lower (unicode_lower ev) (LoginRequest.email req)) = Some u \<and>
        verify_password (LoginRequest.password req) (password_hash u) (entropy ev) = Inr False)
   \<Longrightarrow> login (Some d) req ev = Inl (HTTPException 401 ''Invalid credentials'')"
  by (auto simp: login_def Let_def)

theorem login_invalid_credentials_same_error_witness:
  "find_one (db_ann ''user'') (lower (unicode_lower env0) (LoginRequest.email login_bob)) = None \<and>
   login (Some db_ann) login_bob env0 = Inl (HTTPException 401 ''Invalid credentials'') \<and>
   find_one (db_ann ''user'') (lower (unicode_lower env0) (LoginRequest.email login_ann)) = Some ann \<and>
   verify_password (LoginRequest.password login_ann) (password_hash ann) (entropy env0) = Inr False \<and>
   login (Some db_ann) login_ann env0 = Inl (HTTPException 401 ''Invalid credentials'')"
proof -
  have b: "find_one (db_ann ''user'') (lower (unicode_lower env0) (LoginRequest.email login_bob)) = None"
    using find_bob by (simp add: login_bob_def env0_def lower_Bob)
  have a: "find_one (db_ann ''user'') (lower (unicode_lower env0) (LoginRequest.email login_ann)) = Some ann"
    using find_ann by (simp add: login_ann_def env0_def lower_Ann)
  have v: "verify_password (LoginRequest.password login_ann) (password_hash ann) (entropy env0)
      = Inr False"
    using verify_ann_wrong by (simp add: login_ann_def env0_def)
  from b have "login (Some db_ann) login_bob env0 = Inl (HTTPException 401 ''Invalid credentials'')"
    by (intro login_invalid_credentials_same_error disjI1)
  moreover from a v
  have "login (Some db_ann) login_ann env0 = Inl (HTTPException 401 ''Invalid credentials'')"
    by (intro login_invalid_credentials_same_error disjI2 exI [of _ ann] conjI)
  ultimately show ?thesis using a b v by blast
qed

text \<open>
  C7. With no store configured, signup and login fail with status 500,
  \<open>Database not configured\<close>, whatever the request and the environment: nothing is
  looked up, hashed or inserted, and no other error is produced.
\<close>

theorem store_unavailable_first:
  "signup None sreq ev = Inl (HTTPException 500 ''Database not configured'') \<and>
   login None lreq ev = Inl (HTTPException 500 ''Database not configured'')"
  by (simp add: signup_def login_def)

text \<open>
  C8. The claim: for every plaintext and every salt the record is the salt, the
  delimiter and the hexadecimal digest of salt + plaintext. It fails for the empty
  salt, where the record starts with a fresh token instead. Amended: for every
  plaintext and every non-empty salt, the record is the salt, the delimiter and the
  hexadecimal SHA-256 digest of the encoded salt + plaintext, a digest of 64 characters;
  where salt + plaintext cannot be encoded no record is returned.
\<close>

theorem hash_password_format_empty_salt_counterexample:
  "hash_password (ustr ''secret1'') (Some []) zero_source \<noteq>
     Inr ([] @ [delim] @ sha256_hexdigest (utf8 ([] @ ustr ''secret1'')))"
proof
  assume "hash_password (ustr ''secret1'') (Some []) zero_source =
     Inr ([] @ [delim] @ sha256_hexdigest (utf8 ([] @ ustr ''secret1'')))"
  then have "token_hex SALT_LEN zero_source @ delim #
        sha256_hexdigest (utf8 (token_hex SALT_LEN zero_source @ ustr ''secret1'')) =
      delim # sha256_hexdigest (utf8 (ustr ''secret1''))"
    by (simp add: hash_password_empty_salt encodable_secret1)
  then have "hd (token_hex SALT_LEN zero_source @ delim #
        sha256_hexdigest (utf8 (token_hex SALT_LEN zero_source @ ustr ''secret1''))) =
      hd (delim # sha256_hexdigest (utf8 (ustr ''secret1'')))"
    by (rule arg_cong)
  then have "hd (token_hex SALT_LEN zero_source) = delim"
    by (simp only: hd_token_record list.sel)
  then show False by (simp add: hd_token_zero delim_def)
qed

theorem hash_password_format:
  "s \<noteq> [] \<Longrightarrow>
   hash_password p (Some s) rnd =
     (if encodable (s @ p) then Inr (s @ [delim] @ sha256_hexdigest (utf8 (s @ p)))
      else Inl UnicodeEncodeError) \<and>
   length (sha256_hexdigest (utf8 (s @ p))) = 64"
  by (simp add: hash_password_eq salt_or_token_Some length_sha256_hexdigest)

theorem hash_password_format_witness:
  "ustr ''5f3a'' \<noteq> [] \<and>
   hash_password (ustr ''secret1'') (Some (ustr ''5f3a'')) zero_source =
     Inr (ustr ''5f3a'' @ [delim] @ sha256_hexdigest (utf8 (ustr ''5f3a'' @ ustr ''secret1''))) \<and>
   length (sha256_hexdigest (utf8 (ustr ''5f3a'' @ ustr ''secret1''))) = 64"
proof -
  have h: "ustr ''5f3a'' \<noteq> []" using salt_5f3a by simp
  have e: "encodable (ustr ''5f3a'' @ ustr ''secret1'')"
    using salt_5f3a by (simp add: encodable_append encodable_secret1)
  show ?thesis
    using h e hash_password_format [OF h, of "ustr ''secret1''" zero_source] by simp
qed

text \<open>
  C9. A successful signup returns the identifier, the trimmed name and the lowercased
  email of the created account and nothing else. With any other password and salt
  entropy the same request either returns the same response or ends in the
  \<open>UnicodeEncodeError\<close> of a password that cannot be encoded: the response holds neither
  the plaintext password nor the credential record.
\<close>

theorem signup_response_public_fields:
  "signup db req ev = Inr (d', resp) \<Longrightarrow>
   resp = JObj [(''user_id'', JStr (inserted_id ev)),
                (''name'', JStr (strip (SignupRequest.name req))),
                (''email'', JStr (lower (unicode_lower ev) (SignupRequest.email req)))] \<and>
   (\<forall>pw' rnd'.
      (\<exists>d''. signup db (req\<lparr>SignupRequest.password := pw'\<rparr>) (ev\<lparr>entropy := rnd'\<rparr>)
                = Inr (d'', resp)) \<or>
      signup db (req\<lparr>SignupRequest.password := pw'\<rparr>) (ev\<lparr>entropy := rnd'\<rparr>)
        = Inl UnicodeEncodeError)"
  by (auto simp: signup_def Let_def hash_password_eq split: option.splits if_splits)

theorem signup_response_public_fields_witness:
  "signup (Some db_empty) req_ANN env0 =
     Inr (db_empty(''user'' :=
            [\<lparr> oid = ustr ''65f1a2b3c4d5e6f708091a2c'', User.name = ustr ''Ann'',
               User.email = ustr ''ann@x.com'',
               password_hash =
                 ustr ''00000000000000000000000000000000$'' @
                 ustr ''8120c8f8925b976b5c6f23b5b5c6ba4f1595e3236c76e6c2efb7f78225ecf857'',
               created_at = 1700000100, updated_at = 1700000101 \<rparr>]),
          JObj [(''user_id'', JStr (ustr ''65f1a2b3c4d5e6f708091a2c'')),
                (''name'', JStr (ustr ''Ann'')),
                (''email'', JStr (ustr ''ann@x.com''))]) \<and>
   JObj [(''user_id'', JStr (ustr ''65f1a2b3c4d5e6f708091a2c'')),
         (''name'', JStr (ustr ''Ann'')),
         (''email'', JStr (ustr ''ann@x.com''))] =
   JObj [(''user_id'', JStr (inserted_id env0)),
         (''name'', JStr (strip (SignupRequest.name req_ANN))),
         (''email'', JStr (lower (unicode_lower env0) (SignupRequest.email req_ANN)))]"
proof -
  have h: "signup (Some db_empty) req_ANN env0 =
     Inr (db_empty(''user'' :=
            [\<lparr> oid = ustr ''65f1a2b3c4d5e6f708091a2c'', User.name = ustr ''Ann'',
               User.email = ustr ''ann@x.com'',
               password_hash =
                 ustr ''00000000000000000000000000000000$'' @
                 ustr ''8120c8f8925b976b5c6f23b5b5c6ba4f1595e3236c76e6c2efb7f78225ecf857'',
               created_at = 1700000100, updated_at = 1700000101 \<rparr>]),
          JObj [(''user_id'', JStr (ustr ''65f1a2b3c4d5e6f708091a2c'')),
                (''name'', JStr (ustr ''Ann'')),
                (''email'', JStr (ustr ''ann@x.com''))])"
    by (simp add: signup_def db_empty_def req_ANN_def env0_def find_one_def insert_one_def
        Let_def lower_ANN strip_Ann hash_secret1_zero)
  show ?thesis
    using h signup_response_public_fields [OF h] by blast
qed

text \<open>
  C10. The claim: an empty salt is treated as omitted, so no plaintext verifies against a
  stored record whose salt component is empty. The first part holds. The second fails
  for a plaintext with a surrogate code point: against the record \<open>$abc\<close> the call
  raises \<open>UnicodeEncodeError\<close> and returns nothing. Amended: for every plaintext without
  a surrogate code point, \<open>derive\<close> with the empty salt returns what it returns with the
  salt omitted, the record that starts with the fresh token of 32 hexadecimal digits
  (a different token for different random bytes) followed by the delimiter and the
  digest of token + plaintext; and \<open>verify\<close> returns \<open>False\<close> for every stored record
  whose salt component is empty.
\<close>

theorem empty_salt_verify_counterexample:
  "verify_password [55296] (ustr ''$abc'') zero_source = Inl UnicodeEncodeError"
proof -
  have "split delim (ustr ''$abc'') = [[], ustr ''abc'']" by code_simp
  then have "verify_password [55296] (ustr ''$abc'') zero_source =
      (case hash_password [55296] (Some []) zero_source of
         Inl e \<Rightarrow> Inl e
       | Inr record \<Rightarrow> Inr (record = ustr ''$abc''))"
    by (rule verify_password_split2)
  then show ?thesis
    by (simp add: hash_password_eq encodable_append not_encodable_surrogate)
qed

theorem empty_salt_treated_as_omitted:
  "encodable p \<Longrightarrow>
   hash_password p (Some []) rnd = hash_password p None rnd \<and>
   hash_password p None rnd =
     Inr (token_hex SALT_LEN rnd @ [delim] @
          sha256_hexdigest (utf8 (token_hex SALT_LEN rnd @ p))) \<and>
   length (token_hex SALT_LEN rnd) = 32 \<and>
   (token_hex SALT_LEN rnd = token_hex SALT_LEN rnd') =
     (token_bytes SALT_LEN rnd = token_bytes SALT_LEN rnd') \<and>
   verify_password p (delim # h) rnd'' = Inr False"
proof (intro conjI)
  assume enc: "encodable p"
  show "hash_password p (Some []) rnd = hash_password p None rnd"
    by (simp add: hash_password_eq salt_or_token_empty salt_or_token_None)
  show "hash_password p None rnd =
     Inr (token_hex SALT_LEN rnd @ [delim] @
          sha256_hexdigest (utf8 (token_hex SALT_LEN rnd @ p)))"
    using enc
    by (simp add: hash_password_eq salt_or_token_None encodable_append token_hex_encodable)
  show "length (token_hex SALT_LEN rnd) = 32"
    by (simp add: length_token_hex SALT_LEN_def)
  show "(token_hex SALT_LEN rnd = token_hex SALT_LEN rnd') =
     (token_bytes SALT_LEN rnd = token_bytes SALT_LEN rnd')"
    by (rule token_hex_inj)
  show "verify_password p (delim # h) rnd'' = Inr False"
  proof (cases "delim \<in> set h")
    case True
    then show ?thesis
      using count_list_pos [OF True] by (simp add: verify_password_bad_count)
  next
    case False
    then have "split delim (delim # h) = [[], h]"
      by (simp add: split_no_sep)
    then have v: "verify_password p (delim # h) rnd'' =
        (case hash_password p (Some []) rnd'' of
           Inl e \<Rightarrow> Inl e
         | Inr record \<Rightarrow> Inr (record = delim # h))"
      by (rule verify_password_split2)
    have "token_hex SALT_LEN rnd'' @ delim #
          sha256_hexdigest (utf8 (token_hex SALT_LEN rnd'' @ p)) \<noteq> delim # h"
    proof
      assume "token_hex SALT_LEN rnd'' @ delim #
          sha256_hexdigest (utf8 (token_hex SALT_LEN rnd'' @ p)) = delim # h"
      then have "hd (token_hex SALT_LEN rnd'' @ delim #
          sha256_hexdigest (utf8 (token_hex SALT_LEN rnd'' @ p))) = hd (delim # h)"
        by (rule arg_cong)
      then have "hd (token_hex SALT_LEN rnd'') = delim"
        by (simp only: hd_token_record list.sel)
      moreover have "nat (rnd'' 0 mod 256 div 16 mod 16) < 16" by simp
      ultimately show False
        using hexchars_plain by (simp add: hd_token_hex)
    qed
    with v enc show ?thesis
      by (simp add: hash_password_empty_salt)
  qed
qed

theorem empty_salt_treated_as_omitted_witness:
  "encodable (ustr ''secret1'') \<and>
   hash_password (ustr ''secret1'') (Some []) zero_source =
     Inr (ustr ''00000000000000000000000000000000$'' @
          ustr ''8120c8f8925b976b5c6f23b5b5c6ba4f1595e3236c76e6c2efb7f78225ecf857'') \<and>
   token_hex SALT_LEN zero_source \<noteq> token_hex SALT_LEN ones_source \<and>
   verify_password (ustr ''secret1'') (delim # ustr ''abc'') zero_source = Inr False"
proof -
  have b: "token_bytes SALT_LEN zero_source \<noteq> token_bytes SALT_LEN ones_source"
    by code_simp
  show ?thesis
    using b hash_secret1_zero
      empty_salt_treated_as_omitted [OF encodable_secret1, of zero_source ones_source
        "ustr ''abc''" zero_source]
    by (simp add: encodable_secret1)
qed

end
